theory Spec2Isabelle
  imports Complex_Main "HOL-Library.Sublist" "HOL-Library.AList"
begin

section \<open>The company-profile record\<close>

text \<open>
  \<^verbatim>\<open>company_manager.py\<close> keeps the company profile in the dictionary
  \<^verbatim>\<open>self.company_data\<close>: 23 keys that hold a \<^verbatim>\<open>str\<close> and one, \<^verbatim>\<open>default_tax_rate\<close>,
  that holds a \<^verbatim>\<open>float\<close>. The dictionary with exactly these keys is the record below.

  A Python float is a binary64 number: \<open>Finite q\<close> is the one whose value is the
  rational \<open>q\<close> (\<open>Finite 0\<close> is \<open>+0.0\<close>), \<open>NegZero\<close> is \<open>-0.0\<close>, and the other three
  are the infinities and the NaN.
\<close>

datatype pyfloat = Finite rat | NegZero | PosInf | NegInf | NaN

record company_record =
  name :: string
  registration_number :: string
  type :: string
  street :: string
  suburb :: string
  province :: string
  postal_code :: string
  country :: string
  email :: string
  phone :: string
  whatsapp :: string
  website :: string
  account_name :: string
  bank :: string
  branch_code :: string
  account_number :: string
  account_type :: string
  swift_code :: string
  vat_number :: string
  tax_reference :: string
  default_tax_rate :: pyfloat
  industry :: string
  established_year :: string
  description :: string

text \<open>The dictionary that \<^verbatim>\<open>__init__\<close> builds (lines 36 to 61).\<close>

definition company_data :: company_record where
  "company_data =
     \<lparr> name = ''JK WINNERS INVESTMENT(PTY)Ltd'',
       registration_number = ''2013/047375/07'',
       type = ''Private Company'',
       street = ''22 Sloane Street'',
       suburb = ''Bryanston'',
       province = ''GAUTENG'',
       postal_code = ''1619'',
       country = ''South Africa'',
       email = ''info@jkwinnersinvestment.co.za'',
       phone = ''010 085 3553'',
       whatsapp = ''0839887569'',
       website = '''',
       account_name = ''JK Winners Investment (Pty)Ltd'',
       bank = ''FNB'',
       branch_code = ''250655'',
       account_number = ''63151527133'',
       account_type = ''Business'',
       swift_code = '''',
       vat_number = '''',
       tax_reference = '''',
       default_tax_rate = Finite 15,
       industry = ''Investment'',
       established_year = ''2013'',
       description = ''Investment Company'' \<rparr>"

text \<open>
  A value stored under a key is a string or a float. \<^verbatim>\<open>str(value)\<close> leaves a string
  as it is; on a float it is the interpreter's shortest decimal representation, which
  the functions below take as the parameter \<open>float_str\<close>.
\<close>

datatype pyval = Str string | Flt pyfloat

fun py_str :: "(pyfloat \<Rightarrow> string) \<Rightarrow> pyval \<Rightarrow> string" where
  "py_str float_str (Str s) = s"
| "py_str float_str (Flt x) = float_str x"

text \<open>
  The exceptions raised in the functions below; \<open>ConfigParserError\<close> stands for the
  subclasses of \<^verbatim>\<open>configparser.Error\<close>.
\<close>

datatype error = KeyError | TypeError | ValueError | JSONDecodeError | RecursionError
  | UnicodeDecodeError | ConfigParserError

text \<open>
  The f-string \<^verbatim>\<open>f"{data['street']}, {data['suburb']}, {data['province']} {data['postal_code']}"\<close>
  of lines 94 and 162.
\<close>

definition full_address :: "company_record \<Rightarrow> string" where
  "full_address data =
     street data @ '', '' @ suburb data @ '', '' @ province data @ '' '' @ postal_code data"

section \<open>CSV: \<^verbatim>\<open>write_csv\<close>\<close>

text \<open>
  \<^verbatim>\<open>csv.DictWriter(f, fieldnames=fieldnames)\<close> with the default dialect: delimiter
  \<open>,\<close>, quote character \<open>"\<close>, doubled quotes, minimal quoting, line terminator CR LF.
  A field is quoted when it holds the delimiter, the quote character, CR or LF; a row
  that is a single empty field is written as two quotes.
\<close>

definition csv_needs_quotes :: "string \<Rightarrow> bool" where
  "csv_needs_quotes s =
     list_ex (\<lambda>c. c = CHR '','' \<or> c = CHR 0x22 \<or> c = CHR 0x0D \<or> c = CHR 0x0A) s"

definition csv_field :: "string \<Rightarrow> string" where
  "csv_field s =
     (if csv_needs_quotes s
      then [CHR 0x22] @ concat (map (\<lambda>c. if c = CHR 0x22 then [c, c] else [c]) s) @ [CHR 0x22]
      else s)"

fun join :: "string \<Rightarrow> string list \<Rightarrow> string" where
  "join sep [] = []"
| "join sep [x] = x"
| "join sep (x # y # ys) = x @ sep @ join sep (y # ys)"

definition csv_writerow :: "string list \<Rightarrow> string" where
  "csv_writerow row =
     (if row = [[]] then [CHR 0x22, CHR 0x22] else join '','' (map csv_field row))
     @ [CHR 0x0D, CHR 0x0A]"

text \<open>
  \<^verbatim>\<open>DictWriter._dict_to_list\<close>: a key of the row that is no field name raises
  \<^verbatim>\<open>ValueError\<close> (\<^verbatim>\<open>extrasaction='raise'\<close>); a field name the row lacks is written as
  the empty string (\<^verbatim>\<open>restval\<close>).
\<close>

definition dict_to_list :: "string list \<Rightarrow> (string \<times> pyval) list \<Rightarrow> error + pyval list" where
  "dict_to_list fns rowdict =
     (if list_ex (\<lambda>k. k \<notin> set fns) (map fst rowdict) then Inl ValueError
      else Inr (map (\<lambda>k. case map_of rowdict k of Some v \<Rightarrow> v | None \<Rightarrow> Str []) fns))"

definition dictwriter_writerow ::
  "(pyfloat \<Rightarrow> string) \<Rightarrow> string list \<Rightarrow> (string \<times> pyval) list \<Rightarrow> error + string" where
  "dictwriter_writerow float_str fns rowdict =
     (case dict_to_list fns rowdict of
        Inl e \<Rightarrow> Inl e
      | Inr vs \<Rightarrow> Inr (csv_writerow (map (py_str float_str) vs)))"

text \<open>\<^verbatim>\<open>writeheader\<close> writes the row \<^verbatim>\<open>dict(zip(fieldnames, fieldnames))\<close>.\<close>

definition dictwriter_writeheader :: "(pyfloat \<Rightarrow> string) \<Rightarrow> string list \<Rightarrow> error + string" where
  "dictwriter_writeheader float_str fns =
     dictwriter_writerow float_str fns (zip fns (map Str fns))"

text \<open>Lines 203 to 209.\<close>

definition fieldnames :: "string list" where
  "fieldnames =
     [''company_name'', ''registration_number'', ''company_type'', ''street_address'',
      ''suburb'', ''province'', ''postal_code'', ''country'', ''email'', ''phone'',
      ''whatsapp'', ''website'', ''account_name'', ''bank'', ''branch_code'',
      ''account_number'', ''account_type'', ''vat_number'', ''tax_reference'',
      ''default_tax_rate'', ''industry'', ''established_year'', ''description'']"

text \<open>The dictionary handed to \<^verbatim>\<open>writer.writerow\<close>, lines 214 to 238.\<close>

definition csv_rowdict :: "company_record \<Rightarrow> (string \<times> pyval) list" where
  "csv_rowdict data =
     [(''company_name'', Str (name data)),
      (''registration_number'', Str (registration_number data)),
      (''company_type'', Str (type data)),
      (''street_address'', Str (street data)),
      (''suburb'', Str (suburb data)),
      (''province'', Str (province data)),
      (''postal_code'', Str (postal_code data)),
      (''country'', Str (country data)),
      (''email'', Str (email data)),
      (''phone'', Str (phone data)),
      (''whatsapp'', Str (whatsapp data)),
      (''website'', Str (website data)),
      (''account_name'', Str (account_name data)),
      (''bank'', Str (bank data)),
      (''branch_code'', Str (branch_code data)),
      (''account_number'', Str (account_number data)),
      (''account_type'', Str (account_type data)),
      (''vat_number'', Str (vat_number data)),
      (''tax_reference'', Str (tax_reference data)),
      (''default_tax_rate'', Flt (default_tax_rate data)),
      (''industry'', Str (industry data)),
      (''established_year'', Str (established_year data)),
      (''description'', Str (description data))]"

text \<open>
  \<^verbatim>\<open>write_csv\<close>: the text written to \<^verbatim>\<open>company_details.csv\<close> (opened with
  \<^verbatim>\<open>newline=''\<close>, so the text reaches the file as it is), or the exception raised.
\<close>

definition write_csv :: "(pyfloat \<Rightarrow> string) \<Rightarrow> company_record \<Rightarrow> error + string" where
  "write_csv float_str data =
     (case dictwriter_writeheader float_str fieldnames of
        Inl e \<Rightarrow> Inl e
      | Inr header \<Rightarrow>
          (case dictwriter_writerow float_str fieldnames (csv_rowdict data) of
             Inl e \<Rightarrow> Inl e
           | Inr row \<Rightarrow> Inr (header @ row)))"

section \<open>JSON: \<^verbatim>\<open>write_json\<close> and \<^verbatim>\<open>read_json\<close>\<close>

text \<open>
  The values \<^verbatim>\<open>json.load\<close> returns and \<^verbatim>\<open>json.dump\<close> accepts: \<^verbatim>\<open>None\<close>, booleans,
  integers, floats, strings, lists, and dictionaries with string keys (in insertion order).
\<close>

datatype json = JNull | JBool bool | JInt int | JFloat pyfloat | JString string
  | JArray "json list" | JObject "(string \<times> json) list"

text \<open>
  The text syntax of JSON is the work of Python's \<^verbatim>\<open>json\<close> module, not of this
  program. A file is represented by two facts about its text: whether it is a JSON text
  (by the grammar of RFC 8259), and what \<^verbatim>\<open>json.load\<close> does with it, which is to return
  a document or to raise. Neither fact decides the other: \<^verbatim>\<open>json.load\<close> accepts the
  number literals \<^verbatim>\<open>NaN\<close>, \<^verbatim>\<open>Infinity\<close> and \<^verbatim>\<open>-Infinity\<close>, which are no JSON, and it raises
  \<^verbatim>\<open>ValueError\<close> on an integer of more than 4300 digits and \<^verbatim>\<open>RecursionError\<close> on a text
  nested too deeply, which are JSON. On a text that is neither JSON nor one of these
  it raises \<^verbatim>\<open>JSONDecodeError\<close>, and on bytes that are no UTF-8
  \<^verbatim>\<open>UnicodeDecodeError\<close>. A file that does not exist is \<open>None\<close>; other failures of the
  file system are not modelled.
\<close>

datatype json_file = JsonText (is_json: bool) (json_load: "error + json")

text \<open>The subscript \<^verbatim>\<open>data[key]\<close> with a string key.\<close>

fun getitem :: "json \<Rightarrow> string \<Rightarrow> error + json" where
  "getitem (JObject items) key =
     (case map_of items key of None \<Rightarrow> Inl KeyError | Some v \<Rightarrow> Inr v)"
| "getitem other key = Inl TypeError"

text \<open>What the program prints to report a failure.\<close>

datatype report =
    FileNotFoundMsg
  | ErrorReadingJSON error
  | ErrorReadingINI error
  | InvalidTaxRate

text \<open>
  \<^verbatim>\<open>read_json\<close>, lines 63 to 75: the reports printed and the value returned. Both
  \<^verbatim>\<open>except\<close> branches return \<^verbatim>\<open>None\<close>, which is \<open>JNull\<close>.
\<close>

definition read_json :: "json_file option \<Rightarrow> report list \<times> json" where
  "read_json file =
     (case file of
        None \<Rightarrow> ([FileNotFoundMsg], JNull)
      | Some f \<Rightarrow>
          (case json_load f of
             Inl e \<Rightarrow> ([ErrorReadingJSON e], JNull)
           | Inr data \<Rightarrow>
               (case getitem data ''company'' of
                  Inl e \<Rightarrow> ([ErrorReadingJSON e], JNull)
                | Inr company \<Rightarrow> ([], company))))"

text \<open>The dictionary \<^verbatim>\<open>structured_data\<close> of lines 83 to 121.\<close>

definition structured_data :: "company_record \<Rightarrow> json" where
  "structured_data data =
     JObject
      [(''company'', JObject
         [(''name'', JString (name data)),
          (''registration_number'', JString (registration_number data)),
          (''type'', JString (type data)),
          (''address'', JObject
             [(''street'', JString (street data)),
              (''suburb'', JString (suburb data)),
              (''province'', JString (province data)),
              (''postal_code'', JString (postal_code data)),
              (''country'', JString (country data)),
              (''full_address'', JString (full_address data))]),
          (''contact'', JObject
             [(''email'', JString (email data)),
              (''phone'', JString (phone data)),
              (''whatsapp'', JString (whatsapp data)),
              (''website'', JString (website data))]),
          (''banking'', JObject
             [(''account_name'', JString (account_name data)),
              (''bank'', JString (bank data)),
              (''branch_code'', JString (branch_code data)),
              (''account_number'', JString (account_number data)),
              (''account_type'', JString (account_type data)),
              (''swift_code'', JString (swift_code data))]),
          (''tax'', JObject
             [(''vat_number'', JString (vat_number data)),
              (''tax_reference'', JString (tax_reference data)),
              (''default_tax_rate'', JFloat (default_tax_rate data))]),
          (''business'', JObject
             [(''industry'', JString (industry data)),
              (''established_year'', JString (established_year data)),
              (''description'', JString (description data))])])]"

text \<open>
  \<^verbatim>\<open>write_json\<close>: the file \<^verbatim>\<open>company_details.json\<close> after the call.
  \<^verbatim>\<open>json.dump(structured_data, f, indent=2, ensure_ascii=False)\<close> writes a text that
  \<^verbatim>\<open>json.load\<close> reads back as \<^verbatim>\<open>structured_data\<close> (a dictionary of dictionaries of strings
  and one float). The text is JSON unless the float is an infinity or the NaN, which
  \<^verbatim>\<open>json.dump\<close> writes as \<^verbatim>\<open>Infinity\<close>, \<^verbatim>\<open>-Infinity\<close> or \<^verbatim>\<open>NaN\<close>.
\<close>

fun finite_float :: "pyfloat \<Rightarrow> bool" where
  "finite_float (Finite q) = True"
| "finite_float NegZero = True"
| "finite_float other = False"

definition write_json :: "company_record \<Rightarrow> json_file" where
  "write_json data =
     JsonText (finite_float (default_tax_rate data)) (Inr (structured_data data))"

text \<open>
  Reading a value of the decoded object by a path of keys, \<^verbatim>\<open>r[k1][k2]...\<close>; \<open>None\<close>
  when a subscript raises.
\<close>

fun getpath :: "json \<Rightarrow> string list \<Rightarrow> json option" where
  "getpath v [] = Some v"
| "getpath v (key # keys) =
     (case getitem v key of Inl e \<Rightarrow> None | Inr w \<Rightarrow> getpath w keys)"

text \<open>
  A document has a top-level key when it is a dictionary with that key; a document that
  is a list, a string, a number, a boolean or \<^verbatim>\<open>null\<close> has no keys.
\<close>

fun has_key :: "json \<Rightarrow> string \<Rightarrow> bool" where
  "has_key (JObject items) key = (key \<in> fst ` set items)"
| "has_key other key = False"

section \<open>INI: \<^verbatim>\<open>read_ini\<close>\<close>

text \<open>
  Parsing is the work of \<^verbatim>\<open>configparser\<close>. \<^verbatim>\<open>config.read(path)\<close> either raises (a
  line that is no section header, option or continuation, a duplicate section or option,
  an option before the first header), which is \<open>Unparsable\<close>, or leaves a parser
  whose \<^verbatim>\<open>sections()\<close> and \<^verbatim>\<open>config[section].items()\<close> are the list \<open>Parsed\<close>
  carries: the sections in file order, each with its options in order (those of a
  \<^verbatim>\<open>DEFAULT\<close> section among them), every option with the value \<^verbatim>\<open>items()\<close> yields or
  the interpolation error it raises there.
  \<^verbatim>\<open>config.read\<close> skips a file that does not exist and leaves the parser without
  sections.
\<close>

type_synonym ini_section = "string \<times> (string \<times> (error + string)) list"

datatype ini_file = Parsed "ini_section list" | Unparsable

text \<open>
  A Python dictionary from strings to strings, in insertion order: assigning to a key it
  has keeps the key's place, a new key goes to the end.
\<close>

type_synonym dict = "(string \<times> string) list"

text \<open>The inner loop of lines 135 and 136, stopping at the first exception.\<close>

fun read_items :: "dict \<Rightarrow> (string \<times> (error + string)) list \<Rightarrow> error + dict" where
  "read_items data [] = Inr data"
| "read_items data ((key, Inl e) # rest) = Inl e"
| "read_items data ((key, Inr v) # rest) = read_items (AList.update key v data) rest"

text \<open>The outer loop of line 134.\<close>

fun read_sections :: "dict \<Rightarrow> ini_section list \<Rightarrow> error + dict" where
  "read_sections data [] = Inr data"
| "read_sections data ((section, items) # rest) =
     (case read_items data items of
        Inl e \<Rightarrow> Inl e
      | Inr data' \<Rightarrow> read_sections data' rest)"

text \<open>
  \<^verbatim>\<open>read_ini\<close>, lines 126 to 140: the reports printed and the value returned
  (\<open>None\<close> is Python's \<^verbatim>\<open>None\<close>). \<^verbatim>\<open>data\<close> starts as the empty dictionary.
\<close>

definition read_ini :: "ini_file option \<Rightarrow> report list \<times> dict option" where
  "read_ini file =
     (case file of
        None \<Rightarrow> ([], Some [])
      | Some Unparsable \<Rightarrow> ([ErrorReadingINI ConfigParserError], None)
      | Some (Parsed sections) \<Rightarrow>
          (case read_sections [] sections of
             Inl e \<Rightarrow> ([ErrorReadingINI e], None)
           | Inr data \<Rightarrow> ([], Some data)))"

text \<open>The options of all sections that \<^verbatim>\<open>items()\<close> yields a value for, in file order.\<close>

fun item_values :: "(string \<times> (error + string)) list \<Rightarrow> dict" where
  "item_values [] = []"
| "item_values ((key, Inl e) # rest) = item_values rest"
| "item_values ((key, Inr v) # rest) = (key, v) # item_values rest"

definition all_items :: "ini_section list \<Rightarrow> dict" where
  "all_items sections = concat (map (\<lambda>(section, items). item_values items) sections)"

definition raises_nowhere :: "ini_section list \<Rightarrow> bool" where
  "raises_nowhere sections =
     list_all (\<lambda>(section, items). list_all (\<lambda>(key, v). \<not> isl v) items) sections"

section \<open>INI: \<^verbatim>\<open>write_ini\<close>\<close>

text \<open>
  Assigning a dictionary to \<^verbatim>\<open>config[section]\<close> stores every value through
  \<^verbatim>\<open>ConfigParser.set\<close>, whose \<^verbatim>\<open>BasicInterpolation.before_set\<close> rejects a non-empty value
  with a stray percent sign: it deletes every \<^verbatim>\<open>%%\<close>, then every match of the regular
  expression \<^verbatim>\<open>%\(([^)]+)\)s\<close>, and raises \<^verbatim>\<open>ValueError\<close> when a \<^verbatim>\<open>%\<close> is left.
\<close>

fun remove_escaped_percent :: "string \<Rightarrow> string" where
  "remove_escaped_percent (a # b # cs) =
     (if a = CHR ''%'' \<and> b = CHR ''%'' then remove_escaped_percent cs
      else a # remove_escaped_percent (b # cs))"
| "remove_escaped_percent cs = cs"

text \<open>
  A match of \<^verbatim>\<open>%\(([^)]+)\)s\<close> at the head of \<open>s\<close>: \<open>%(\<close>, the longest run of
  characters other than \<open>)\<close>, which must not be empty, then \<open>)s\<close>. The result is the text
  after the match.
\<close>

definition keycre_match :: "string \<Rightarrow> string option" where
  "keycre_match s =
     (case s of
        a # b # cs \<Rightarrow>
          (if a = CHR ''%'' \<and> b = CHR ''('' \<and> takeWhile (\<lambda>c. c \<noteq> CHR '')'') cs \<noteq> []
           then (case dropWhile (\<lambda>c. c \<noteq> CHR '')'') cs of
                   p # q # rest \<Rightarrow> if q = CHR ''s'' then Some rest else None
                 | _ \<Rightarrow> None)
           else None)
      | _ \<Rightarrow> None)"

text \<open>
  \<^verbatim>\<open>_KEYCRE.sub('', s)\<close>, by the number of characters of the current match still to
  skip: \<open>keycre_sub 0 s\<close> is the substitution on \<open>s\<close>.
\<close>

fun keycre_sub :: "nat \<Rightarrow> string \<Rightarrow> string" where
  "keycre_sub n [] = []"
| "keycre_sub (Suc n) (c # cs) = keycre_sub n cs"
| "keycre_sub 0 (c # cs) =
     (case keycre_match (c # cs) of
        Some rest \<Rightarrow> keycre_sub (length cs - length rest) cs
      | None \<Rightarrow> c # keycre_sub 0 cs)"

definition before_set :: "string \<Rightarrow> error + string" where
  "before_set v =
     (if CHR ''%'' \<in> set (keycre_sub 0 (remove_escaped_percent v)) then Inl ValueError
      else Inr v)"

text \<open>\<^verbatim>\<open>RawConfigParser.set\<close> calls \<^verbatim>\<open>before_set\<close> only \<^verbatim>\<open>if value\<close>.\<close>

definition set_value_ok :: "string \<Rightarrow> bool" where
  "set_value_ok v = (v = [] \<or> \<not> isl (before_set v))"

text \<open>\<^verbatim>\<open>optionxform\<close> is \<^verbatim>\<open>str.lower\<close>; on ASCII letters:\<close>

definition lower :: "char \<Rightarrow> char" where
  "lower c =
     (if 65 \<le> (of_char c :: nat) \<and> (of_char c :: nat) \<le> 90 then char_of (of_char c + 32 :: nat)
      else c)"

type_synonym config = "(string \<times> dict) list"

text \<open>
  \<^verbatim>\<open>config[section] = items\<close> for a section other than \<^verbatim>\<open>DEFAULT\<close>: a section the
  parser has is emptied and keeps its place, a new one goes to the end; then every
  option is set, and the first value \<^verbatim>\<open>before_set\<close> rejects raises.
\<close>

definition config_setitem :: "config \<Rightarrow> string \<Rightarrow> dict \<Rightarrow> error + config" where
  "config_setitem config section items =
     (if list_all (\<lambda>(key, v). set_value_ok v) items
      then Inr (AList.update section
                  (foldl (\<lambda>sect (key, v). AList.update (map lower key) v sect) [] items) config)
      else Inl ValueError)"

text \<open>
  \<^verbatim>\<open>config.write(f)\<close>: per section the header line, one line \<^verbatim>\<open>key = value\<close> per option
  with every line feed of the value followed by a tab, and an empty line.
\<close>

definition write_option :: "string \<times> string \<Rightarrow> string" where
  "write_option kv =
     fst kv @ '' = ''
       @ concat (map (\<lambda>c. if c = CHR 0x0A then [CHR 0x0A, CHR 0x09] else [c]) (snd kv))
       @ [CHR 0x0A]"

definition write_section :: "string \<times> dict \<Rightarrow> string" where
  "write_section sect =
     ''['' @ fst sect @ '']'' @ [CHR 0x0A] @ concat (map write_option (snd sect)) @ [CHR 0x0A]"

definition config_write :: "config \<Rightarrow> string" where
  "config_write config = concat (map write_section config)"

text \<open>Running a step that may raise after one that may raise.\<close>

definition and_then :: "error + 'a \<Rightarrow> ('a \<Rightarrow> error + 'b) \<Rightarrow> error + 'b" where
  "and_then r f = (case r of Inl e \<Rightarrow> Inl e | Inr x \<Rightarrow> f x)"

text \<open>
  The six dictionaries of lines 150 to 191, and their assignments to \<^verbatim>\<open>config[...]\<close> in
  the order of the source.
\<close>

definition company_section :: "company_record \<Rightarrow> dict" where
  "company_section data =
     [(''name'', name data),
      (''registration_number'', registration_number data),
      (''type'', type data)]"

definition address_section :: "company_record \<Rightarrow> dict" where
  "address_section data =
     [(''street'', street data),
      (''suburb'', suburb data),
      (''province'', province data),
      (''postal_code'', postal_code data),
      (''country'', country data),
      (''full_address'', full_address data)]"

definition contact_section :: "company_record \<Rightarrow> dict" where
  "contact_section data =
     [(''email'', email data),
      (''phone'', phone data),
      (''whatsapp'', whatsapp data),
      (''website'', website data)]"

definition banking_section :: "company_record \<Rightarrow> dict" where
  "banking_section data =
     [(''account_name'', account_name data),
      (''bank'', bank data),
      (''branch_code'', branch_code data),
      (''account_number'', account_number data),
      (''account_type'', account_type data),
      (''swift_code'', swift_code data)]"

definition tax_section :: "(pyfloat \<Rightarrow> string) \<Rightarrow> company_record \<Rightarrow> dict" where
  "tax_section float_str data =
     [(''vat_number'', vat_number data),
      (''tax_reference'', tax_reference data),
      (''default_tax_rate'', float_str (default_tax_rate data))]"

definition business_section :: "company_record \<Rightarrow> dict" where
  "business_section data =
     [(''industry'', industry data),
      (''established_year'', established_year data),
      (''description'', description data)]"

definition ini_sections :: "(pyfloat \<Rightarrow> string) \<Rightarrow> company_record \<Rightarrow> config" where
  "ini_sections float_str data =
     [(''company'', company_section data),
      (''address'', address_section data),
      (''contact'', contact_section data),
      (''banking'', banking_section data),
      (''tax'', tax_section float_str data),
      (''business'', business_section data)]"

fun set_sections :: "config \<Rightarrow> (string \<times> dict) list \<Rightarrow> error + config" where
  "set_sections config [] = Inr config"
| "set_sections config (assignment # rest) =
     and_then (config_setitem config (fst assignment) (snd assignment))
       (\<lambda>config'. set_sections config' rest)"

text \<open>The parser after the six assignments, or the exception one of them raised.\<close>

definition ini_config :: "(pyfloat \<Rightarrow> string) \<Rightarrow> company_record \<Rightarrow> error + config" where
  "ini_config float_str data = set_sections [] (ini_sections float_str data)"

text \<open>
  \<^verbatim>\<open>write_ini\<close>: the text handed to the file \<^verbatim>\<open>company_details.ini\<close>, or the exception
  raised before the file is opened.
\<close>

definition write_ini :: "(pyfloat \<Rightarrow> string) \<Rightarrow> company_record \<Rightarrow> error + string" where
  "write_ini float_str data =
     and_then (ini_config float_str data) (\<lambda>config. Inr (config_write config))"

section \<open>Plain text: \<^verbatim>\<open>write_text\<close>\<close>

text \<open>\<^verbatim>\<open>a or b\<close> on strings: \<open>b\<close> when \<open>a\<close> is empty.\<close>

definition str_or :: "string \<Rightarrow> string \<Rightarrow> string" where
  "str_or a b = (if a = [] then b else a)"

text \<open>The f-string of lines 247 to 283, line by line; the lines are joined by line feeds.\<close>

definition text_lines :: "(pyfloat \<Rightarrow> string) \<Rightarrow> company_record \<Rightarrow> string list" where
  "text_lines float_str data =
     [''Company Name'',
      ''    '' @ name data,
      [],
      ''Registration Number'',
      ''    '' @ registration_number data,
      [],
      ''Company Type'',
      ''    '' @ type data,
      [],
      ''Address'',
      ''    '' @ street data,
      ''    '' @ suburb data,
      ''    '' @ province data,
      ''    '' @ postal_code data,
      ''    '' @ country data,
      [],
      ''Contact Details'',
      ''    Email: '' @ email data,
      ''    Phone: '' @ phone data,
      ''    WhatsApp: '' @ whatsapp data,
      [],
      ''Banking Details'',
      ''    Account Name: '' @ account_name data,
      ''    Bank: '' @ bank data,
      ''    Branch Code: '' @ branch_code data,
      ''    Account Number: '' @ account_number data,
      ''    Account Type: '' @ account_type data,
      [],
      ''Tax Information'',
      ''    VAT Number: '' @ str_or (vat_number data) ''[To be filled]'',
      ''    Tax Reference: '' @ str_or (tax_reference data) ''[To be filled]'',
      ''    Default Tax Rate: '' @ float_str (default_tax_rate data) @ ''%'',
      [],
      ''Business Information'',
      ''    Industry: '' @ industry data,
      ''    Established: '' @ established_year data,
      ''    Description: '' @ description data]"

definition write_text :: "(pyfloat \<Rightarrow> string) \<Rightarrow> company_record \<Rightarrow> string" where
  "write_text float_str data = join [CHR 0x0A] (text_lines float_str data)"

section \<open>Editing the tax rate: \<^verbatim>\<open>edit_tax\<close>\<close>

text \<open>
  \<^verbatim>\<open>float(s)\<close> on a string, as CPython computes it. A string of ASCII characters is
  parsed as it is: white space is stripped from both ends; an underscore may stand
  between two digits and is dropped; what is left is an optional sign followed by
  \<^verbatim>\<open>inf\<close>, \<^verbatim>\<open>infinity\<close> or \<^verbatim>\<open>nan\<close> in any case, or by a decimal number (digits with an
  optional point, at least one digit) with an optional exponent (\<^verbatim>\<open>e\<close> or \<^verbatim>\<open>E\<close>, an
  optional sign, at least one digit). Anything else raises \<^verbatim>\<open>ValueError\<close>, which is
  \<open>None\<close>. The number is rounded to the nearest binary64 number, ties to the even
  mantissa.
\<close>

definition py_isspace :: "char \<Rightarrow> bool" where
  "py_isspace c = ((9 \<le> (of_char c :: nat) \<and> (of_char c :: nat) \<le> 13) \<or> c = CHR '' '')"

definition strip :: "string \<Rightarrow> string" where
  "strip s = rev (dropWhile py_isspace (rev (dropWhile py_isspace s)))"

definition is_digit :: "char \<Rightarrow> bool" where
  "is_digit c = (48 \<le> (of_char c :: nat) \<and> (of_char c :: nat) \<le> 57)"

text \<open>
  The underscores: one is allowed only after a digit and before a digit. \<open>prev\<close> is the
  character before, \<^verbatim>\<open>'\0'\<close> at the start.
\<close>

fun drop_underscores :: "char \<Rightarrow> string \<Rightarrow> string option" where
  "drop_underscores prev [] = (if prev = CHR ''_'' then None else Some [])"
| "drop_underscores prev (c # cs) =
     (if c = CHR ''_''
      then (if is_digit prev then drop_underscores c cs else None)
      else (if prev = CHR ''_'' \<and> \<not> is_digit c then None
            else map_option ((#) c) (drop_underscores c cs)))"

definition digits_value :: "string \<Rightarrow> int" where
  "digits_value ds = foldl (\<lambda>n c. 10 * n + (of_char c - 48)) 0 ds"

text \<open>An optional sign: whether it is a minus, and the text after it.\<close>

fun take_sign :: "string \<Rightarrow> bool \<times> string" where
  "take_sign [] = (False, [])"
| "take_sign (c # cs) =
     (if c = CHR ''-'' then (True, cs) else if c = CHR ''+'' then (False, cs) else (False, c # cs))"

text \<open>The exponent part, which must reach the end of the text: its value.\<close>

definition parse_exponent :: "string \<Rightarrow> int option" where
  "parse_exponent s =
     (case s of
        [] \<Rightarrow> Some 0
      | c # cs \<Rightarrow>
          (if c = CHR ''e'' \<or> c = CHR ''E''
           then (let (neg, ds) = take_sign cs
                 in if ds \<noteq> [] \<and> list_all is_digit ds
                    then Some (if neg then - digits_value ds else digits_value ds)
                    else None)
           else None))"

text \<open>
  A decimal number without sign: its digits as a number \<open>m\<close> and the power of ten
  \<open>e\<close> to scale it with; the number is \<open>m * 10 ^ e\<close>.
\<close>

definition parse_number :: "string \<Rightarrow> (int \<times> int) option" where
  "parse_number s =
     (let ipart = takeWhile is_digit s;
          rest = dropWhile is_digit s;
          fpart = (case rest of [] \<Rightarrow> [] | c # cs \<Rightarrow> if c = CHR ''.'' then takeWhile is_digit cs else []);
          rest' = (case rest of [] \<Rightarrow> [] | c # cs \<Rightarrow> if c = CHR ''.'' then dropWhile is_digit cs else rest)
      in if ipart = [] \<and> fpart = [] then None
         else (case parse_exponent rest' of
                 None \<Rightarrow> None
               | Some e \<Rightarrow> Some (digits_value (ipart @ fpart), e - int (length fpart))))"

text \<open>
  Rounding the fraction \<open>n / d\<close> of two positive integers to binary64. \<open>ilog2 n\<close> is
  the position of the highest bit of \<open>n\<close>; \<open>scaled n d p\<close> is the fraction
  \<open>n / d / 2 ^ p\<close>; \<open>floor_log2 n d\<close> is the largest \<open>e\<close> with \<open>2 ^ e \<le> n / d\<close>.
\<close>

function ilog2 :: "int \<Rightarrow> int" where
  "ilog2 n = (if n < 2 then 0 else 1 + ilog2 (n div 2))"
  by pat_completeness auto
termination
  by (relation "measure nat") auto

declare ilog2.simps [simp del]

definition scaled :: "int \<Rightarrow> int \<Rightarrow> int \<Rightarrow> int \<times> int" where
  "scaled n d p = (if 0 \<le> p then (n, d * 2 ^ nat p) else (n * 2 ^ nat (- p), d))"

definition floor_log2 :: "int \<Rightarrow> int \<Rightarrow> int" where
  "floor_log2 n d =
     (let c = ilog2 n - ilog2 d
      in if snd (scaled n d c) \<le> fst (scaled n d c) then c else c - 1)"

text \<open>The integer nearest to \<open>a / b\<close>, the even one of two that are equally near.\<close>

definition round_half_even :: "int \<Rightarrow> int \<Rightarrow> int" where
  "round_half_even a b =
     (let q = a div b; r = a mod b
      in if 2 * r < b then q else if b < 2 * r then q + 1 else if even q then q else q + 1)"

definition pow2 :: "int \<Rightarrow> rat" where
  "pow2 p = (if 0 \<le> p then 2 ^ nat p else 1 / 2 ^ nat (- p))"

text \<open>
  A binary64 number is \<open>m * 2 ^ p\<close> with \<open>m < 2 ^ 53\<close> and \<open>- 1074 \<le> p \<le> 971\<close>. The
  exponent \<open>p\<close> of the result puts the highest bit of \<open>n / d\<close> at bit 52 of \<open>m\<close>, unless
  that needs \<open>p\<close> below \<open>- 1074\<close> (a subnormal number). A result of \<open>2 ^ 1024\<close> or more
  is an infinity, a result of zero keeps the sign.
\<close>

definition to_binary64 :: "bool \<Rightarrow> int \<Rightarrow> int \<Rightarrow> pyfloat" where
  "to_binary64 neg n d =
     (if n = 0 then (if neg then NegZero else Finite 0)
      else
        (let p = max (floor_log2 n d - 52) (- 1074);
             m = round_half_even (fst (scaled n d p)) (snd (scaled n d p))
         in if 971 < p \<or> (p = 971 \<and> 2 ^ 53 \<le> m) then (if neg then NegInf else PosInf)
            else if m = 0 then (if neg then NegZero else Finite 0)
            else Finite ((if neg then - 1 else 1) * of_int m * pow2 p)))"

text \<open>The binary64 number nearest to \<open>m * 10 ^ e\<close>, with the sign.\<close>

definition decimal_to_binary64 :: "bool \<Rightarrow> int \<Rightarrow> int \<Rightarrow> pyfloat" where
  "decimal_to_binary64 neg m e =
     (if 0 \<le> e then to_binary64 neg (m * 10 ^ nat e) 1 else to_binary64 neg m (10 ^ nat (- e)))"

definition float_of_ascii :: "string \<Rightarrow> pyfloat option" where
  "float_of_ascii s =
     (case drop_underscores (CHR 0x00) (strip s) of
        None \<Rightarrow> None
      | Some t \<Rightarrow>
          (let (neg, body) = take_sign t;
               word = map lower body
           in if word = ''inf'' \<or> word = ''infinity'' then Some (if neg then NegInf else PosInf)
              else if word = ''nan'' then Some NaN
              else (case parse_number body of
                      None \<Rightarrow> None
                    | Some (m, e) \<Rightarrow> Some (decimal_to_binary64 neg m e))))"

text \<open>
  A string is ASCII when every character of it is below 128. On a string that is not
  ASCII, \<^verbatim>\<open>float\<close> first rewrites it (\<^verbatim>\<open>_PyUnicode_TransformDecimalAndSpaceToASCII\<close>): a
  white space character of Unicode becomes a space, a decimal digit of Unicode becomes
  its ASCII digit, and the string is cut at the first other character from 127 on,
  which becomes a question mark; the result is parsed as above. The tables of Unicode
  belong to the interpreter: the rewriting is the parameter \<open>to_ascii\<close>, which is not
  consulted on an ASCII string.
\<close>

definition is_ascii :: "string \<Rightarrow> bool" where
  "is_ascii s = list_all (\<lambda>c. (of_char c :: nat) < 128) s"

definition py_float :: "(string \<Rightarrow> string) \<Rightarrow> string \<Rightarrow> pyfloat option" where
  "py_float to_ascii s = float_of_ascii (if is_ascii s then s else to_ascii s)"

text \<open>
  \<^verbatim>\<open>edit_tax\<close>, lines 382 to 392, on the three lines the user types: the record after
  the call and the reports printed. \<^verbatim>\<open>input(...) or current\<close> keeps the current value on
  an empty line.
\<close>

definition edit_tax ::
  "(string \<Rightarrow> string) \<Rightarrow> company_record \<Rightarrow> string \<Rightarrow> string \<Rightarrow> string
     \<Rightarrow> company_record \<times> report list" where
  "edit_tax to_ascii data vat_input reference_input tax_rate =
     (let data1 = data\<lparr>vat_number := str_or vat_input (vat_number data)\<rparr>;
          data2 = data1\<lparr>tax_reference := str_or reference_input (tax_reference data1)\<rparr>
      in if tax_rate \<noteq> []
         then (case py_float to_ascii tax_rate of
                 Some x \<Rightarrow> (data2\<lparr>default_tax_rate := x\<rparr>, [])
               | None \<Rightarrow> (data2, [InvalidTaxRate]))
         else (data2, []))"

section \<open>The \<^verbatim>\<open>--read\<close> action of \<^verbatim>\<open>main\<close>\<close>

text \<open>The truth value of a Python object, as \<^verbatim>\<open>if data:\<close> takes it.\<close>

fun truthy :: "json \<Rightarrow> bool" where
  "truthy JNull = False"
| "truthy (JBool b) = b"
| "truthy (JInt n) = (n \<noteq> 0)"
| "truthy (JFloat x) = (x \<noteq> Finite 0 \<and> x \<noteq> NegZero)"
| "truthy (JString s) = (s \<noteq> [])"
| "truthy (JArray xs) = (xs \<noteq> [])"
| "truthy (JObject items) = (items \<noteq> [])"

text \<open>What the program writes to standard output.\<close>

datatype printed = Report report | PrintedJson json | PrintedLine string

text \<open>
  An item of the output shows data of a record when it is the decoded JSON object or a
  line of \<^verbatim>\<open>display_data\<close>; a report of a failure shows none.
\<close>

fun shows_record :: "printed \<Rightarrow> bool" where
  "shows_record (Report r) = False"
| "shows_record (PrintedJson v) = True"
| "shows_record (PrintedLine l) = True"

definition dict_get :: "dict \<Rightarrow> string \<Rightarrow> error + string" where
  "dict_get data key = (case map_of data key of None \<Rightarrow> Inl KeyError | Some v \<Rightarrow> Inr v)"

text \<open>The five lines of \<^verbatim>\<open>display_data\<close>, lines 403 to 407, each with the keys it reads.\<close>

definition display_lines :: "dict \<Rightarrow> (error + string) list" where
  "display_lines data =
     [and_then (dict_get data ''name'') (\<lambda>n. Inr (''Company: '' @ n)),
      and_then (dict_get data ''registration_number'') (\<lambda>r. Inr (''Registration: '' @ r)),
      and_then (dict_get data ''street'') (\<lambda>a.
      and_then (dict_get data ''suburb'') (\<lambda>b.
      and_then (dict_get data ''province'') (\<lambda>c.
      and_then (dict_get data ''postal_code'') (\<lambda>d.
        Inr (''Address: '' @ a @ '', '' @ b @ '', '' @ c @ '' '' @ d))))),
      and_then (dict_get data ''email'') (\<lambda>a.
      and_then (dict_get data ''phone'') (\<lambda>b.
      and_then (dict_get data ''whatsapp'') (\<lambda>c.
        Inr (''Contact: '' @ a @ '' | '' @ b @ '' | WhatsApp: '' @ c)))),
      and_then (dict_get data ''bank'') (\<lambda>a.
      and_then (dict_get data ''account_number'') (\<lambda>b.
        Inr (''Bank: '' @ a @ '' - '' @ b)))]"

text \<open>
  Printing line after line: what was printed, and the exception that ended the run, if
  one did.
\<close>

fun print_all :: "(error + string) list \<Rightarrow> printed list \<times> error option" where
  "print_all [] = ([], None)"
| "print_all (Inl e # rest) = ([], Some e)"
| "print_all (Inr line # rest) =
     (case print_all rest of (out, err) \<Rightarrow> (PrintedLine line # out, err))"

definition display_data :: "dict \<Rightarrow> printed list \<times> error option" where
  "display_data data = print_all (display_lines data)"

text \<open>The formats \<^verbatim>\<open>--read\<close> accepts: \<^verbatim>\<open>choices=['json', 'ini', 'csv', 'txt']\<close>.\<close>

datatype format = Json | Ini | Csv | Txt

text \<open>
  Lines 420 to 428, on the two files the readers open: what is printed, and the
  exception the run ends with, if any. The chain of \<^verbatim>\<open>if\<close> and \<^verbatim>\<open>elif\<close> has a branch
  for \<^verbatim>\<open>json\<close> and one for \<^verbatim>\<open>ini\<close>, and none for the other two formats.
\<close>

definition main_read ::
  "format \<Rightarrow> json_file option \<Rightarrow> ini_file option \<Rightarrow> printed list \<times> error option" where
  "main_read fmt json_f ini_f =
     (case fmt of
        Json \<Rightarrow>
          (case read_json json_f of (reports, data) \<Rightarrow>
             (map Report reports @ (if truthy data then [PrintedJson data] else []), None))
      | Ini \<Rightarrow>
          (case read_ini ini_f of
             (reports, None) \<Rightarrow> (map Report reports, None)
           | (reports, Some data) \<Rightarrow>
               (if data \<noteq> []
                then (case display_data data of (out, err) \<Rightarrow> (map Report reports @ out, err))
                else (map Report reports, None)))
      | Csv \<Rightarrow> ([], None)
      | Txt \<Rightarrow> ([], None))"

section \<open>Properties of the CSV export\<close>


lemma csv_rowdict_keys: "map fst (csv_rowdict data) = fieldnames"
  by (simp add: csv_rowdict_def fieldnames_def)

lemma csv_rowdict_no_extras:
  "\<not> list_ex (\<lambda>k. k \<notin> set fieldnames) (map fst (csv_rowdict data))"
  by (simp add: csv_rowdict_keys list_ex_iff)

lemma header_no_extras:
  "\<not> list_ex (\<lambda>k. k \<notin> set fns) (map fst (zip fns (map Str fns)))"
  by (simp add: list_ex_iff)

lemma map_of_zip_same:
  "k \<in> set fns \<Longrightarrow> map_of (zip fns (map f fns)) k = Some (f k)"
  by (induction fns) auto

lemma header_values:
  "map (\<lambda>k. case map_of (zip fns (map Str fns)) k of Some v \<Rightarrow> v | None \<Rightarrow> Str []) fns
     = map Str fns"
  by (rule map_cong [OF refl]) (simp add: map_of_zip_same)

lemma writeheader_text:
  "dictwriter_writeheader float_str fns = Inr (csv_writerow fns)"
  unfolding dictwriter_writeheader_def dictwriter_writerow_def dict_to_list_def
  by (simp only: header_no_extras header_values if_False sum.case map_map comp_def py_str.simps)
     simp

lemma csv_row_values:
  "map (\<lambda>k. case map_of (csv_rowdict data) k of Some v \<Rightarrow> v | None \<Rightarrow> Str []) fieldnames
     = map snd (csv_rowdict data)"
  by (simp add: csv_rowdict_def fieldnames_def)

lemma writerow_text:
  "dictwriter_writerow float_str fieldnames (csv_rowdict data)
     = Inr (csv_writerow (map (py_str float_str \<circ> snd) (csv_rowdict data)))"
  unfolding dictwriter_writerow_def dict_to_list_def
  by (simp only: csv_rowdict_no_extras csv_row_values if_False sum.case map_map)

lemma write_csv_text:
  "write_csv float_str data
     = Inr (csv_writerow fieldnames
            @ csv_writerow (map (py_str float_str \<circ> snd) (csv_rowdict data)))"
  by (simp add: write_csv_def writeheader_text writerow_text)



lemma csv_rowdict_swift_code: "csv_rowdict (data\<lparr>swift_code := s\<rparr>) = csv_rowdict data"
  by (simp add: csv_rowdict_def)



text \<open>
  C10. The header row of the CSV export has no \<open>swift_code\<close> column, and the value of
  \<open>swift_code\<close> does not reach the text: two records that differ only in that field
  are exported to the same text.
\<close>

theorem write_csv_ignores_swift_code:
  "write_csv float_str (data\<lparr>swift_code := s\<rparr>) = write_csv float_str data
   \<and> (\<exists>row. write_csv float_str data = Inr (csv_writerow fieldnames @ row))
   \<and> ''swift_code'' \<notin> set fieldnames"
proof -
  have "write_csv float_str (data\<lparr>swift_code := s\<rparr>) = write_csv float_str data"
    by (simp only: write_csv_def csv_rowdict_swift_code)
  moreover have "\<exists>row. write_csv float_str data = Inr (csv_writerow fieldnames @ row)"
    by (simp add: write_csv_text)
  moreover have "''swift_code'' \<notin> set fieldnames"
    by (simp add: fieldnames_def)
  ultimately show ?thesis by blast
qed

theorem write_csv_ignores_swift_code_witness:
  "write_csv (\<lambda>x. ''15.0'') (company_data\<lparr>swift_code := ''FIRNZAJJ''\<rparr>)
     = write_csv (\<lambda>x. ''15.0'') company_data
   \<and> ''swift_code'' \<notin> set fieldnames"
  using write_csv_ignores_swift_code
          [where float_str = "\<lambda>x. ''15.0''" and data = company_data and s = "''FIRNZAJJ''"]
  by blast

section \<open>Properties of the JSON codec\<close>

lemma getitem_has_key: "isl (getitem doc key) = (\<not> has_key doc key)"
  by (cases doc) (auto simp: dom_map_of_conv_image_fst [symmetric] domIff split: option.splits)

lemma read_json_loaded:
  "json_load content = Inr doc \<Longrightarrow>
   read_json (Some content) =
     (case getitem doc ''company'' of
        Inl e \<Rightarrow> ([ErrorReadingJSON e], JNull)
      | Inr company \<Rightarrow> ([], company))"
  by (simp add: read_json_def)

lemma read_json_raised:
  "json_load content = Inl e \<Longrightarrow> read_json (Some content) = ([ErrorReadingJSON e], JNull)"
  by (simp add: read_json_def)

lemma read_json_written:
  "read_json (Some (write_json data)) =
     ([], JObject
       [(''name'', JString (name data)),
        (''registration_number'', JString (registration_number data)),
        (''type'', JString (type data)),
        (''address'', JObject
           [(''street'', JString (street data)),
            (''suburb'', JString (suburb data)),
            (''province'', JString (province data)),
            (''postal_code'', JString (postal_code data)),
            (''country'', JString (country data)),
            (''full_address'', JString (full_address data))]),
        (''contact'', JObject
           [(''email'', JString (email data)),
            (''phone'', JString (phone data)),
            (''whatsapp'', JString (whatsapp data)),
            (''website'', JString (website data))]),
        (''banking'', JObject
           [(''account_name'', JString (account_name data)),
            (''bank'', JString (bank data)),
            (''branch_code'', JString (branch_code data)),
            (''account_number'', JString (account_number data)),
            (''account_type'', JString (account_type data)),
            (''swift_code'', JString (swift_code data))]),
        (''tax'', JObject
           [(''vat_number'', JString (vat_number data)),
            (''tax_reference'', JString (tax_reference data)),
            (''default_tax_rate'', JFloat (default_tax_rate data))]),
        (''business'', JObject
           [(''industry'', JString (industry data)),
            (''established_year'', JString (established_year data)),
            (''description'', JString (description data))])])"
  by (simp add: read_json_def write_json_def structured_data_def)

text \<open>
  C4, as the specification states it, fails in both directions. The file that
  \<^verbatim>\<open>write_json\<close> writes for a record whose tax rate is the NaN holds the literal
  \<^verbatim>\<open>NaN\<close> and so is no JSON text, yet \<^verbatim>\<open>json.load\<close> accepts it: \<^verbatim>\<open>read_json\<close> reports
  nothing and returns the object with its tax rate. And a text that is JSON, with the
  key \<open>company\<close> at its top and an integer of more than 4300 digits inside, makes
  \<^verbatim>\<open>json.load\<close> raise \<^verbatim>\<open>ValueError\<close>: \<^verbatim>\<open>read_json\<close> reports the failure.
\<close>

theorem read_json_failure_is_not_invalidity:
  "\<not> is_json (write_json (company_data\<lparr>default_tax_rate := NaN\<rparr>))
   \<and> fst (read_json (Some (write_json (company_data\<lparr>default_tax_rate := NaN\<rparr>)))) = []
   \<and> getpath (snd (read_json (Some (write_json (company_data\<lparr>default_tax_rate := NaN\<rparr>)))))
         [''tax'', ''default_tax_rate'']
       = Some (JFloat NaN)
   \<and> is_json (JsonText True (Inl ValueError))
   \<and> read_json (Some (JsonText True (Inl ValueError))) = ([ErrorReadingJSON ValueError], JNull)"
  by (simp add: read_json_written) (simp add: write_json_def read_json_def)

text \<open>
  C4, amended. On a file that exists, \<^verbatim>\<open>read_json\<close> takes its \<^verbatim>\<open>except Exception\<close>
  branch (it prints \<^verbatim>\<open>Error reading JSON\<close>) exactly when \<^verbatim>\<open>json.load\<close> raises on the
  text or the document it returns has no top-level key \<open>company\<close>. It then returns
  \<^verbatim>\<open>None\<close>, no part of a record. Otherwise it prints nothing and returns the value
  under \<open>company\<close>.
\<close>

theorem read_json_fails_iff:
  "(fst (read_json (Some content)) \<noteq> [])
     = (isl (json_load content)
        \<or> (\<exists>doc. json_load content = Inr doc \<and> \<not> has_key doc ''company''))
   \<and> (fst (read_json (Some content)) \<noteq> []
        \<longrightarrow> (\<exists>e. read_json (Some content) = ([ErrorReadingJSON e], JNull)))
   \<and> (fst (read_json (Some content)) = []
        \<longrightarrow> (\<exists>doc. json_load content = Inr doc
               \<and> getitem doc ''company'' = Inr (snd (read_json (Some content)))))"
proof (cases "json_load content")
  case (Inl e)
  then show ?thesis by (simp add: read_json_raised)
next
  case (Inr doc)
  show ?thesis
  proof (cases "getitem doc ''company''")
    case (Inl e)
    with getitem_has_key [of doc "''company''"] have "\<not> has_key doc ''company''" by simp
    with Inl Inr show ?thesis by (simp add: read_json_loaded)
  next
    case r: (Inr v)
    with getitem_has_key [of doc "''company''"] have "has_key doc ''company''" by simp
    with r Inr show ?thesis by (simp add: read_json_loaded)
  qed
qed

theorem read_json_fails_iff_witness:
  "\<not> has_key (JObject [(''name'', JString ''Acme'')]) ''company''
   \<and> read_json (Some (JsonText True (Inr (JObject [(''name'', JString ''Acme'')]))))
       = ([ErrorReadingJSON KeyError], JNull)
   \<and> read_json (Some (JsonText False (Inl JSONDecodeError)))
       = ([ErrorReadingJSON JSONDecodeError], JNull)
   \<and> read_json (Some (JsonText True (Inr (JObject [(''company'', JObject [])]))))
       = ([], JObject [])"
  using read_json_fails_iff [of "JsonText True (Inr (JObject [(''name'', JString ''Acme'')]))"]
    read_json_fails_iff [of "JsonText False (Inl JSONDecodeError)"]
    read_json_fails_iff [of "JsonText True (Inr (JObject [(''company'', JObject [])]))"]
  by (simp add: read_json_def)

text \<open>
  C1, as the specification states it, fails: what \<^verbatim>\<open>read_json\<close> returns for the file
  that \<^verbatim>\<open>write_json\<close> wrote from the initial record is not a flat record. The read
  succeeds, and the subscript \<^verbatim>\<open>['street']\<close> of its result raises \<^verbatim>\<open>KeyError\<close>, while the
  record holds a street.
\<close>

theorem json_round_trip_is_nested:
  "fst (read_json (Some (write_json company_data))) = []
   \<and> getitem (snd (read_json (Some (write_json company_data)))) ''street'' = Inl KeyError
   \<and> street company_data = ''22 Sloane Street''"
  by (simp add: read_json_written) (simp add: company_data_def)

text \<open>
  C1, amended. Reading back the file \<^verbatim>\<open>write_json\<close> wrote succeeds and returns the
  nested object stored under \<open>company\<close>: \<open>name\<close>, \<open>registration_number\<close> and \<open>type\<close> are
  its own keys, and every other field of the record is found, with the value the record
  has, under the key of its group (\<open>address\<close>, \<open>contact\<close>, \<open>banking\<close>, \<open>tax\<close>,
  \<open>business\<close>). The fields of the groups, and \<open>full_address\<close>, are not keys of the object
  itself.
\<close>

theorem json_round_trip:
  "fst (read_json (Some (write_json data))) = []
   \<and> map (getpath (snd (read_json (Some (write_json data)))))
        [[''name''], [''registration_number''], [''type''],
         [''address'', ''street''], [''address'', ''suburb''], [''address'', ''province''],
         [''address'', ''postal_code''], [''address'', ''country''],
         [''contact'', ''email''], [''contact'', ''phone''], [''contact'', ''whatsapp''],
         [''contact'', ''website''],
         [''banking'', ''account_name''], [''banking'', ''bank''],
         [''banking'', ''branch_code''], [''banking'', ''account_number''],
         [''banking'', ''account_type''], [''banking'', ''swift_code''],
         [''tax'', ''vat_number''], [''tax'', ''tax_reference''],
         [''tax'', ''default_tax_rate''],
         [''business'', ''industry''], [''business'', ''established_year''],
         [''business'', ''description'']]
     = [Some (JString (name data)), Some (JString (registration_number data)),
        Some (JString (type data)),
        Some (JString (street data)), Some (JString (suburb data)),
        Some (JString (province data)), Some (JString (postal_code data)),
        Some (JString (country data)),
        Some (JString (email data)), Some (JString (phone data)),
        Some (JString (whatsapp data)), Some (JString (website data)),
        Some (JString (account_name data)), Some (JString (bank data)),
        Some (JString (branch_code data)), Some (JString (account_number data)),
        Some (JString (account_type data)), Some (JString (swift_code data)),
        Some (JString (vat_number data)), Some (JString (tax_reference data)),
        Some (JFloat (default_tax_rate data)),
        Some (JString (industry data)), Some (JString (established_year data)),
        Some (JString (description data))]
   \<and> map (getitem (snd (read_json (Some (write_json data)))))
        [''street'', ''suburb'', ''province'', ''postal_code'', ''country'', ''full_address'',
         ''email'', ''phone'', ''whatsapp'', ''website'', ''account_name'', ''bank'',
         ''branch_code'', ''account_number'', ''account_type'', ''swift_code'',
         ''vat_number'', ''tax_reference'', ''default_tax_rate'', ''industry'',
         ''established_year'', ''description'']
     = replicate 22 (Inl KeyError)"
proof -
  have "fst (read_json (Some (write_json data))) = []"
    by (simp add: read_json_written)
  moreover have "map (getpath (snd (read_json (Some (write_json data)))))
        [[''name''], [''registration_number''], [''type''],
         [''address'', ''street''], [''address'', ''suburb''], [''address'', ''province''],
         [''address'', ''postal_code''], [''address'', ''country''],
         [''contact'', ''email''], [''contact'', ''phone''], [''contact'', ''whatsapp''],
         [''contact'', ''website''],
         [''banking'', ''account_name''], [''banking'', ''bank''],
         [''banking'', ''branch_code''], [''banking'', ''account_number''],
         [''banking'', ''account_type''], [''banking'', ''swift_code''],
         [''tax'', ''vat_number''], [''tax'', ''tax_reference''],
         [''tax'', ''default_tax_rate''],
         [''business'', ''industry''], [''business'', ''established_year''],
         [''business'', ''description'']]
     = [Some (JString (name data)), Some (JString (registration_number data)),
        Some (JString (type data)),
        Some (JString (street data)), Some (JString (suburb data)),
        Some (JString (province data)), Some (JString (postal_code data)),
        Some (JString (country data)),
        Some (JString (email data)), Some (JString (phone data)),
        Some (JString (whatsapp data)), Some (JString (website data)),
        Some (JString (account_name data)), Some (JString (bank data)),
        Some (JString (branch_code data)), Some (JString (account_number data)),
        Some (JString (account_type data)), Some (JString (swift_code data)),
        Some (JString (vat_number data)), Some (JString (tax_reference data)),
        Some (JFloat (default_tax_rate data)),
        Some (JString (industry data)), Some (JString (established_year data)),
        Some (JString (description data))]"
    by (simp add: read_json_written)
  moreover have "map (getitem (snd (read_json (Some (write_json data)))))
        [''street'', ''suburb'', ''province'', ''postal_code'', ''country'', ''full_address'',
         ''email'', ''phone'', ''whatsapp'', ''website'', ''account_name'', ''bank'',
         ''branch_code'', ''account_number'', ''account_type'', ''swift_code'',
         ''vat_number'', ''tax_reference'', ''default_tax_rate'', ''industry'',
         ''established_year'', ''description'']
     = replicate 22 (Inl KeyError)"
    by (simp add: read_json_written eval_nat_numeral)
  ultimately show ?thesis by (intro conjI)
qed

theorem json_round_trip_witness:
  "fst (read_json (Some (write_json company_data))) = []
   \<and> getpath (snd (read_json (Some (write_json company_data)))) [''address'', ''street'']
       = Some (JString ''22 Sloane Street'')
   \<and> getpath (snd (read_json (Some (write_json company_data)))) [''tax'', ''default_tax_rate'']
       = Some (JFloat (Finite 15))"
  using json_round_trip [of company_data]
  by (simp add: company_data_def)

section \<open>Properties of \<^verbatim>\<open>read_ini\<close>\<close>

lemma read_items_ok:
  "list_all (\<lambda>(key, v). \<not> isl v) items \<Longrightarrow>
   \<exists>data'. read_items data items = Inr data'
      \<and> map_of data' = map_of data ++ map_of (rev (item_values items))"
proof (induction data items rule: read_items.induct)
  case (1 data)
  then show ?case by simp
next
  case (2 data key e rest)
  then show ?case by simp
next
  case (3 data key v rest)
  then obtain data' where r: "read_items (AList.update key v data) rest = Inr data'"
    and m: "map_of data' = map_of (AList.update key v data) ++ map_of (rev (item_values rest))"
    by auto
  have "map_of data' = map_of data ++ map_of (rev (item_values ((key, Inr v) # rest)))"
    by (simp add: m update_conv' map_add_upd_left)
  with r show ?case by simp
qed

lemma read_items_raises:
  "\<not> list_all (\<lambda>(key, v). \<not> isl v) items \<Longrightarrow> \<exists>e. read_items data items = Inl e"
  by (induction data items rule: read_items.induct) auto

lemma read_sections_ok:
  "raises_nowhere sections \<Longrightarrow>
   \<exists>data'. read_sections data sections = Inr data'
      \<and> map_of data' = map_of data ++ map_of (rev (all_items sections))"
proof (induction data sections rule: read_sections.induct)
  case (1 data)
  then show ?case by (simp add: all_items_def)
next
  case (2 data sec items rest)
  from 2(2) have ok: "list_all (\<lambda>(key, v). \<not> isl v) items" and rest: "raises_nowhere rest"
    by (simp_all add: raises_nowhere_def)
  from read_items_ok [OF ok, of data] obtain d1 where
    r1: "read_items data items = Inr d1"
    and m1: "map_of d1 = map_of data ++ map_of (rev (item_values items))" by blast
  from 2(1) [OF r1 rest] obtain d2 where
    r2: "read_sections d1 rest = Inr d2"
    and m2: "map_of d2 = map_of d1 ++ map_of (rev (all_items rest))" by blast
  have "map_of d2 = map_of data ++ map_of (rev (all_items ((sec, items) # rest)))"
    by (simp add: m2 m1 all_items_def)
  with r1 r2 show ?case by simp
qed

lemma read_sections_raises:
  "\<not> raises_nowhere sections \<Longrightarrow> \<exists>e. read_sections data sections = Inl e"
proof (induction data sections rule: read_sections.induct)
  case (1 data)
  then show ?case by (simp add: raises_nowhere_def)
next
  case (2 data sec items rest)
  show ?case
  proof (cases "read_items data items")
    case (Inl e)
    then show ?thesis by simp
  next
    case (Inr d1)
    then have "list_all (\<lambda>(key, v). \<not> isl v) items"
      using read_items_raises [of items data] by auto
    with 2(2) have "\<not> raises_nowhere rest" by (simp add: raises_nowhere_def)
    from 2(1) [OF Inr this] Inr show ?thesis by simp
  qed
qed

lemma dict_get_absent: "key \<notin> fst ` set data \<Longrightarrow> dict_get data key = Inl KeyError"
proof -
  assume "key \<notin> fst ` set data"
  then have "map_of data key = None" by (simp add: map_of_eq_None_iff)
  then show ?thesis by (simp add: dict_get_def)
qed

text \<open>
  C3, as the specification states it, fails: a field the text does not mention does
  not keep its default. On the file with the section \<open>company\<close> and its single option
  \<open>name = Acme\<close>, \<^verbatim>\<open>read_ini\<close> returns a dictionary with that one key; \<open>street\<close>,
  whose default is \<open>22 Sloane Street\<close>, is not in it.
\<close>

theorem read_ini_fills_no_default:
  "read_ini (Some (Parsed [(''company'', [(''name'', Inr ''Acme'')])]))
     = ([], Some [(''name'', ''Acme'')])
   \<and> dict_get [(''name'', ''Acme'')] ''street'' = Inl KeyError
   \<and> street company_data = ''22 Sloane Street''"
  by (simp add: read_ini_def dict_get_def company_data_def)

text \<open>
  C3, amended. When \<^verbatim>\<open>configparser\<close> parses the text and no option raises on reading,
  \<^verbatim>\<open>read_ini\<close> prints nothing and returns one flat dictionary that merges, section
  after section in the order of the file, the options \<^verbatim>\<open>configparser\<close> yields for each
  section (as \<^verbatim>\<open>config[section].items()\<close> gives them: the keys in lower case, the
  values interpolated, the options of a \<^verbatim>\<open>DEFAULT\<close> section among those of every
  section); a key that is yielded more than once keeps the value yielded last. A key
  that no section yields is not a key of the result: \<^verbatim>\<open>data\<close> starts empty and no
  default of the record is filled in. When the parser or an option raises, it prints
  \<^verbatim>\<open>Error reading INI\<close> and returns \<^verbatim>\<open>None\<close>, no part of a record. A file that does not
  exist is read as the empty dictionary.
\<close>

theorem read_ini_flattens:
  "(raises_nowhere sections \<longrightarrow>
      (\<exists>data. read_ini (Some (Parsed sections)) = ([], Some data)
         \<and> map_of data = map_of (rev (all_items sections))
         \<and> fst ` set data = fst ` set (all_items sections)
         \<and> (\<forall>key. key \<notin> fst ` set (all_items sections) \<longrightarrow> dict_get data key = Inl KeyError)))
   \<and> (\<not> raises_nowhere sections \<longrightarrow>
        (\<exists>e. read_ini (Some (Parsed sections)) = ([ErrorReadingINI e], None)))
   \<and> read_ini (Some Unparsable) = ([ErrorReadingINI ConfigParserError], None)
   \<and> read_ini None = ([], Some [])"
proof (intro conjI impI)
  assume ok: "raises_nowhere sections"
  from read_sections_ok [OF ok, of "[]"] obtain data where
    r: "read_sections [] sections = Inr data"
    and m: "map_of data = map_of (rev (all_items sections))" by auto
  from m have "dom (map_of data) = dom (map_of (rev (all_items sections)))" by simp
  then have k: "fst ` set data = fst ` set (all_items sections)"
    by (simp add: dom_map_of_conv_image_fst)
  then have "\<forall>key. key \<notin> fst ` set (all_items sections) \<longrightarrow> dict_get data key = Inl KeyError"
    by (simp add: dict_get_absent)
  with r m k show "\<exists>data. read_ini (Some (Parsed sections)) = ([], Some data)
         \<and> map_of data = map_of (rev (all_items sections))
         \<and> fst ` set data = fst ` set (all_items sections)
         \<and> (\<forall>key. key \<notin> fst ` set (all_items sections) \<longrightarrow> dict_get data key = Inl KeyError)"
    by (simp add: read_ini_def)
next
  assume "\<not> raises_nowhere sections"
  from read_sections_raises [OF this, of "[]"]
  show "\<exists>e. read_ini (Some (Parsed sections)) = ([ErrorReadingINI e], None)"
    by (auto simp: read_ini_def)
next
  show "read_ini (Some Unparsable) = ([ErrorReadingINI ConfigParserError], None)"
    by (simp add: read_ini_def)
next
  show "read_ini None = ([], Some [])"
    by (simp add: read_ini_def)
qed

theorem read_ini_flattens_witness:
  "raises_nowhere
     [(''company'', [(''name'', Inr ''Acme'')]),
      (''contact'', [(''name'', Inr ''Other''), (''email'', Inr ''a@b.c'')])]
   \<and> read_ini (Some (Parsed
       [(''company'', [(''name'', Inr ''Acme'')]),
        (''contact'', [(''name'', Inr ''Other''), (''email'', Inr ''a@b.c'')])]))
       = ([], Some [(''name'', ''Other''), (''email'', ''a@b.c'')])
   \<and> \<not> raises_nowhere [(''company'', [(''name'', Inl ValueError)])]
   \<and> read_ini (Some (Parsed [(''company'', [(''name'', Inl ValueError)])]))
       = ([ErrorReadingINI ValueError], None)"
  using read_ini_flattens
          [of "[(''company'', [(''name'', Inr ''Acme'')]),
                (''contact'', [(''name'', Inr ''Other''), (''email'', Inr ''a@b.c'')])]"]
        read_ini_flattens [of "[(''company'', [(''name'', Inl ValueError)])]"]
  by (simp add: raises_nowhere_def read_ini_def)

section \<open>Properties of the \<^verbatim>\<open>--read\<close> action\<close>

text \<open>
  C9, as the specification states it, fails: a request to read the CSV format does not
  fail. With both files in place the run ends without an exception and without a report.
\<close>

theorem main_read_csv_reports_nothing:
  "main_read Csv (Some (write_json company_data)) (Some (Parsed [])) = ([], None)"
  by (simp add: main_read_def)

text \<open>
  C9, amended. The program has no decoder for the CSV and the text format: whatever the
  files hold, a request to read the \<open>csv\<close> or the \<open>txt\<close> format shows no data of a
  record, in part or in whole, and its outcome does not depend on any file.
\<close>

theorem main_read_csv_txt_no_record:
  "\<not> list_ex shows_record (fst (main_read Csv json_f ini_f))
   \<and> \<not> list_ex shows_record (fst (main_read Txt json_f ini_f))
   \<and> main_read Csv json_f ini_f = main_read Csv json_f' ini_f'
   \<and> main_read Txt json_f ini_f = main_read Txt json_f' ini_f'"
  by (simp add: main_read_def)

theorem main_read_csv_txt_no_record_witness:
  "\<not> list_ex shows_record
       (fst (main_read Csv (Some (write_json company_data))
               (Some (Parsed [(''company'', [(''name'', Inr ''Acme'')])]))))
   \<and> \<not> list_ex shows_record
       (fst (main_read Txt (Some (write_json company_data))
               (Some (Parsed [(''company'', [(''name'', Inr ''Acme'')])]))))
   \<and> main_read Csv (Some (write_json company_data))
         (Some (Parsed [(''company'', [(''name'', Inr ''Acme'')])]))
       = main_read Csv None None
   \<and> list_ex shows_record (fst (main_read Json (Some (write_json company_data)) None))"
  using main_read_csv_txt_no_record
          [of "Some (write_json company_data)"
              "Some (Parsed [(''company'', [(''name'', Inr ''Acme'')])])" None None]
  by (simp add: main_read_def read_json_written)

section \<open>Properties of \<^verbatim>\<open>edit_tax\<close>\<close>

lemmas py_float_defs =
  py_float_def is_ascii_def float_of_ascii_def strip_def py_isspace_def is_digit_def
  lower_def parse_number_def parse_exponent_def digits_value_def decimal_to_binary64_def
  to_binary64_def floor_log2_def scaled_def round_half_even_def pow2_def ilog2.simps

lemma py_float_empty: "py_float to_ascii [] = None"
  by (simp add: py_float_defs)

lemma py_float_abc: "py_float to_ascii ''abc'' = None"
  by (simp add: py_float_defs)

lemma py_float_12_5: "py_float to_ascii ''12.5'' = Some (Finite (25 / 2))"
  by (simp add: py_float_defs)

lemma py_float_minus_5: "py_float to_ascii ''-5'' = Some (Finite (- 5))"
  by (simp add: py_float_defs)

lemma py_float_minus_0: "py_float to_ascii ''-0'' = Some NegZero"
  by (simp add: py_float_defs)

lemma py_float_overflow: "py_float to_ascii ''1e400'' = Some PosInf"
  by (simp add: py_float_defs)

text \<open>
  C2, as the specification states it, fails: \<open>-5\<close> is no non-negative number, yet
  \<^verbatim>\<open>edit_tax\<close> reports nothing and stores \<open>-5.0\<close> as the tax rate. (The line typed is
  ASCII, so the replacement of characters outside ASCII plays no part; it is given as
  the function that turns every string into a question mark.)
\<close>

theorem edit_tax_accepts_negative:
  "edit_tax (\<lambda>s. ''?'') company_data [] [] ''-5''
     = (company_data\<lparr>default_tax_rate := Finite (- 5)\<rparr>, [])"
  by (simp add: edit_tax_def str_or_def py_float_minus_5)

text \<open>
  C2, amended. \<^verbatim>\<open>edit_tax\<close> reports an invalid tax rate exactly when the line typed is
  not empty and \<^verbatim>\<open>float()\<close> cannot parse it; it reports nothing else. On that report, and
  on an empty line, the tax rate keeps its prior value, and with the two other lines
  empty the whole record is unchanged. A line \<^verbatim>\<open>float()\<close> parses is stored, whatever its
  sign: \<open>-5\<close> sets the tax rate to \<open>-5.0\<close>. In particular \<open>abc\<close> leaves the record
  unchanged and is reported, and \<open>12.5\<close> sets the tax rate to \<open>12.5\<close>.
\<close>

theorem edit_tax_validation:
  "(snd (edit_tax to_ascii data vat_input reference_input tax_rate) = [InvalidTaxRate])
     = (tax_rate \<noteq> [] \<and> py_float to_ascii tax_rate = None)
   \<and> (snd (edit_tax to_ascii data vat_input reference_input tax_rate) \<noteq> [InvalidTaxRate]
        \<longrightarrow> snd (edit_tax to_ascii data vat_input reference_input tax_rate) = [])
   \<and> (tax_rate = [] \<or> py_float to_ascii tax_rate = None
        \<longrightarrow> default_tax_rate (fst (edit_tax to_ascii data vat_input reference_input tax_rate))
              = default_tax_rate data
            \<and> fst (edit_tax to_ascii data [] [] tax_rate) = data)
   \<and> (\<forall>x. tax_rate \<noteq> [] \<and> py_float to_ascii tax_rate = Some x
        \<longrightarrow> edit_tax to_ascii data [] [] tax_rate = (data\<lparr>default_tax_rate := x\<rparr>, []))
   \<and> edit_tax to_ascii data [] [] ''abc'' = (data, [InvalidTaxRate])
   \<and> edit_tax to_ascii data [] [] ''12.5'' = (data\<lparr>default_tax_rate := Finite (25 / 2)\<rparr>, [])
   \<and> edit_tax to_ascii data [] [] ''-5'' = (data\<lparr>default_tax_rate := Finite (- 5)\<rparr>, [])"
proof (intro conjI)
  show "(snd (edit_tax to_ascii data vat_input reference_input tax_rate) = [InvalidTaxRate])
     = (tax_rate \<noteq> [] \<and> py_float to_ascii tax_rate = None)"
    by (simp add: edit_tax_def Let_def split: option.splits)
  show "snd (edit_tax to_ascii data vat_input reference_input tax_rate) \<noteq> [InvalidTaxRate]
        \<longrightarrow> snd (edit_tax to_ascii data vat_input reference_input tax_rate) = []"
    by (simp add: edit_tax_def Let_def split: option.splits)
  show "tax_rate = [] \<or> py_float to_ascii tax_rate = None
        \<longrightarrow> default_tax_rate (fst (edit_tax to_ascii data vat_input reference_input tax_rate))
              = default_tax_rate data
            \<and> fst (edit_tax to_ascii data [] [] tax_rate) = data"
    by (auto simp: edit_tax_def Let_def str_or_def split: option.splits)
  show "\<forall>x. tax_rate \<noteq> [] \<and> py_float to_ascii tax_rate = Some x
        \<longrightarrow> edit_tax to_ascii data [] [] tax_rate = (data\<lparr>default_tax_rate := x\<rparr>, [])"
    by (simp add: edit_tax_def Let_def str_or_def)
  show "edit_tax to_ascii data [] [] ''abc'' = (data, [InvalidTaxRate])"
    by (simp add: edit_tax_def str_or_def py_float_abc)
  show "edit_tax to_ascii data [] [] ''12.5'' = (data\<lparr>default_tax_rate := Finite (25 / 2)\<rparr>, [])"
    by (simp add: edit_tax_def str_or_def py_float_12_5)
  show "edit_tax to_ascii data [] [] ''-5'' = (data\<lparr>default_tax_rate := Finite (- 5)\<rparr>, [])"
    by (simp add: edit_tax_def str_or_def py_float_minus_5)
qed

theorem edit_tax_validation_witness:
  "py_float (\<lambda>s. ''?'') ''abc'' = None
   \<and> edit_tax (\<lambda>s. ''?'') company_data [] [] ''abc'' = (company_data, [InvalidTaxRate])
   \<and> py_float (\<lambda>s. ''?'') ''12.5'' = Some (Finite (25 / 2))
   \<and> edit_tax (\<lambda>s. ''?'') company_data [] [] ''12.5''
       = (company_data\<lparr>default_tax_rate := Finite (25 / 2)\<rparr>, [])
   \<and> default_tax_rate (fst (edit_tax (\<lambda>s. ''?'') company_data [] [] ''12.5''))
       = Finite (25 / 2)"
  using edit_tax_validation [of "\<lambda>s. ''?''" company_data "[]" "[]" "''abc''"]
        edit_tax_validation [of "\<lambda>s. ''?''" company_data "[]" "[]" "''12.5''"]
  by (simp add: py_float_abc py_float_12_5)

section \<open>Properties of \<^verbatim>\<open>write_ini\<close>\<close>

lemma and_then_simps:
  "and_then (Inl e) f = Inl e" "and_then (Inr x) f = f x"
  by (simp_all add: and_then_def)

lemma lower_keys:
  "foldl (\<lambda>sect (key, v). AList.update (map lower key) v sect) [] (company_section data)
     = company_section data"
  "foldl (\<lambda>sect (key, v). AList.update (map lower key) v sect) [] (address_section data)
     = address_section data"
  "foldl (\<lambda>sect (key, v). AList.update (map lower key) v sect) [] (contact_section data)
     = contact_section data"
  "foldl (\<lambda>sect (key, v). AList.update (map lower key) v sect) [] (banking_section data)
     = banking_section data"
  "foldl (\<lambda>sect (key, v). AList.update (map lower key) v sect) [] (tax_section float_str data)
     = tax_section float_str data"
  "foldl (\<lambda>sect (key, v). AList.update (map lower key) v sect) [] (business_section data)
     = business_section data"
  by (simp_all add: company_section_def address_section_def contact_section_def
        banking_section_def tax_section_def business_section_def lower_def)

lemma list_all_snd: "list_all (\<lambda>(key, v). P v) items = list_all P (map snd items)"
  by (induction items) auto

lemma ini_config_eq:
  "ini_config float_str data =
     (if list_all set_value_ok (map snd (concat (map snd (ini_sections float_str data))))
      then Inr (ini_sections float_str data) else Inl ValueError)"
  by (simp add: ini_config_def ini_sections_def config_setitem_def lower_keys and_then_simps
        list_all_snd)

lemma write_ini_eq:
  "write_ini float_str data =
     (if list_all set_value_ok (map snd (concat (map snd (ini_sections float_str data))))
      then Inr (config_write (ini_sections float_str data)) else Inl ValueError)"
  by (simp add: write_ini_def ini_config_eq and_then_simps)

lemma set_remove_escaped_percent: "set (remove_escaped_percent s) \<subseteq> set s"
  by (induction s rule: remove_escaped_percent.induct) auto

lemma set_keycre_sub: "set (keycre_sub n s) \<subseteq> set s"
  by (induction n s rule: keycre_sub.induct) (auto split: option.splits)

lemma no_percent_ok: "CHR ''%'' \<notin> set v \<Longrightarrow> set_value_ok v"
  using set_keycre_sub [of 0 "remove_escaped_percent v"] set_remove_escaped_percent [of v]
  by (auto simp: set_value_ok_def before_set_def)

lemma company_data_values_ok:
  "list_all set_value_ok (map snd (concat (map snd (ini_sections (\<lambda>x. ''15.0'') company_data))))"
  by (simp add: ini_sections_def company_section_def address_section_def contact_section_def
        banking_section_def tax_section_def business_section_def full_address_def
        company_data_def no_percent_ok)

lemma sublist_concat_map: "x \<in> set xs \<Longrightarrow> sublist (f x) (concat (map f xs))"
proof (induction xs)
  case Nil
  then show ?case by simp
next
  case (Cons y ys)
  then show ?case by (auto simp: sublist_append)
qed

lemma sublist_inner: "sublist (ps @ xs @ ss) ys \<Longrightarrow> sublist xs ys"
  unfolding sublist_def by (metis append.assoc)

lemma sublist_option_in_section:
  "kv \<in> set items \<Longrightarrow> sublist (write_option kv) (write_section (sec, items))"
proof -
  assume "kv \<in> set items"
  then have "sublist (write_option kv) (concat (map write_option items))"
    by (rule sublist_concat_map)
  then obtain ps ss where "concat (map write_option items) = ps @ write_option kv @ ss"
    by (auto simp: sublist_def)
  then have "write_section (sec, items)
      = (''['' @ sec @ '']'' @ [CHR 0x0A] @ ps) @ write_option kv @ (ss @ [CHR 0x0A])"
    by (simp add: write_section_def)
  then show ?thesis by (metis sublist_appendI)
qed

lemma sublist_option_in_config:
  "(sec, items) \<in> set config \<Longrightarrow> kv \<in> set items \<Longrightarrow>
   sublist (write_option kv) (config_write config)"
proof -
  assume s: "(sec, items) \<in> set config" and k: "kv \<in> set items"
  from s have "sublist (write_section (sec, items)) (config_write config)"
    unfolding config_write_def by (rule sublist_concat_map)
  moreover from k have "sublist (write_option kv) (write_section (sec, items))"
    by (rule sublist_option_in_section)
  ultimately show ?thesis
    by (auto simp: sublist_def) (metis append.assoc)
qed

text \<open>
  C5. \<^verbatim>\<open>write_ini\<close> is a function of the record alone: either a value is rejected
  by \<^verbatim>\<open>ConfigParser.set\<close> and the call raises \<^verbatim>\<open>ValueError\<close> before any text is
  written, or the text is the six sections \<open>company\<close>, \<open>address\<close>, \<open>contact\<close>,
  \<open>banking\<close>, \<open>tax\<close>, \<open>business\<close> in this order, each with its keys in the order of
  the source. Encoding the same record twice therefore gives the same text.
\<close>

theorem write_ini_deterministic:
  "write_ini float_str data =
     (if list_all set_value_ok (map snd (concat (map snd (ini_sections float_str data))))
      then Inr (write_section (''company'', company_section data)
                @ write_section (''address'', address_section data)
                @ write_section (''contact'', contact_section data)
                @ write_section (''banking'', banking_section data)
                @ write_section (''tax'', tax_section float_str data)
                @ write_section (''business'', business_section data))
      else Inl ValueError)
   \<and> map fst (company_section data) = [''name'', ''registration_number'', ''type'']
   \<and> map fst (address_section data)
       = [''street'', ''suburb'', ''province'', ''postal_code'', ''country'', ''full_address'']
   \<and> map fst (contact_section data) = [''email'', ''phone'', ''whatsapp'', ''website'']
   \<and> map fst (banking_section data)
       = [''account_name'', ''bank'', ''branch_code'', ''account_number'', ''account_type'',
          ''swift_code'']
   \<and> map fst (tax_section float_str data)
       = [''vat_number'', ''tax_reference'', ''default_tax_rate'']
   \<and> map fst (business_section data) = [''industry'', ''established_year'', ''description'']
   \<and> (\<forall>t1 t2. write_ini float_str data = Inr t1 \<and> write_ini float_str data = Inr t2
        \<longrightarrow> t1 = t2)"
proof (intro conjI)
  show "write_ini float_str data =
     (if list_all set_value_ok (map snd (concat (map snd (ini_sections float_str data))))
      then Inr (write_section (''company'', company_section data)
                @ write_section (''address'', address_section data)
                @ write_section (''contact'', contact_section data)
                @ write_section (''banking'', banking_section data)
                @ write_section (''tax'', tax_section float_str data)
                @ write_section (''business'', business_section data))
      else Inl ValueError)"
    unfolding write_ini_eq by (simp add: config_write_def ini_sections_def)
  show "\<forall>t1 t2. write_ini float_str data = Inr t1 \<and> write_ini float_str data = Inr t2
        \<longrightarrow> t1 = t2"
    by auto
qed (simp_all add: company_section_def address_section_def contact_section_def
       banking_section_def tax_section_def business_section_def)

theorem write_ini_deterministic_witness:
  "list_all set_value_ok (map snd (concat (map snd (ini_sections (\<lambda>x. ''15.0'') company_data))))
   \<and> write_ini (\<lambda>x. ''15.0'') company_data =
       Inr ''[company]\<newline>name = JK WINNERS INVESTMENT(PTY)Ltd\<newline>registration_number = 2013/047375/07\<newline>type = Private Company\<newline>\<newline>[address]\<newline>street = 22 Sloane Street\<newline>suburb = Bryanston\<newline>province = GAUTENG\<newline>postal_code = 1619\<newline>country = South Africa\<newline>full_address = 22 Sloane Street, Bryanston, GAUTENG 1619\<newline>\<newline>[contact]\<newline>email = info@jkwinnersinvestment.co.za\<newline>phone = 010 085 3553\<newline>whatsapp = 0839887569\<newline>website = \<newline>\<newline>[banking]\<newline>account_name = JK Winners Investment (Pty)Ltd\<newline>bank = FNB\<newline>branch_code = 250655\<newline>account_number = 63151527133\<newline>account_type = Business\<newline>swift_code = \<newline>\<newline>[tax]\<newline>vat_number = \<newline>tax_reference = \<newline>default_tax_rate = 15.0\<newline>\<newline>[business]\<newline>industry = Investment\<newline>established_year = 2013\<newline>description = Investment Company\<newline>\<newline>''"
  using write_ini_deterministic [of "\<lambda>x. ''15.0''" company_data] company_data_values_ok
  by (simp add: write_section_def write_option_def company_section_def address_section_def
        contact_section_def banking_section_def tax_section_def business_section_def
        full_address_def company_data_def)

lemma percent_rejected: "\<not> set_value_ok ''Growth 50% p.a.''"
  by (simp add: set_value_ok_def before_set_def keycre_match_def)

text \<open>
  C7, as the specification states it, fails for the INI output: a record with the four
  address fields of the example and the description \<open>Growth 50% p.a.\<close> has no INI
  output at all, since \<^verbatim>\<open>write_ini\<close> raises \<^verbatim>\<open>ValueError\<close> on it.
\<close>

theorem write_ini_raises_on_percent:
  "street (company_data\<lparr>description := ''Growth 50% p.a.''\<rparr>) = ''22 Sloane Street''
   \<and> suburb (company_data\<lparr>description := ''Growth 50% p.a.''\<rparr>) = ''Bryanston''
   \<and> province (company_data\<lparr>description := ''Growth 50% p.a.''\<rparr>) = ''GAUTENG''
   \<and> postal_code (company_data\<lparr>description := ''Growth 50% p.a.''\<rparr>) = ''1619''
   \<and> write_ini (\<lambda>x. ''15.0'') (company_data\<lparr>description := ''Growth 50% p.a.''\<rparr>)
       = Inl ValueError"
  by (simp add: write_ini_eq ini_sections_def business_section_def percent_rejected)
     (simp add: company_data_def)

text \<open>
  C7, amended. For every record, the JSON document \<^verbatim>\<open>write_json\<close> writes holds, under
  \<open>company\<close>, \<open>address\<close>, \<open>full_address\<close>, the string built at that moment from the
  record's street, suburb, province and postal code; and whenever \<^verbatim>\<open>write_ini\<close> writes
  a text, the section \<open>address\<close> of the parser holds the same string under
  \<open>full_address\<close> and the text holds the line of that option. For a record with the
  street \<open>22 Sloane Street\<close>, the suburb \<open>Bryanston\<close>, the province \<open>GAUTENG\<close> and the
  postal code \<open>1619\<close>, the JSON document, and the INI text whenever one is written,
  hold \<open>22 Sloane Street, Bryanston, GAUTENG 1619\<close>.
\<close>

theorem full_address_computed_at_encode:
  "json_load (write_json data) = Inr (structured_data data)
   \<and> getpath (structured_data data) [''company'', ''address'', ''full_address'']
       = Some (JString (street data @ '', '' @ suburb data @ '', '' @ province data
                        @ '' '' @ postal_code data))
   \<and> (\<forall>config. ini_config float_str data = Inr config \<longrightarrow>
         (\<exists>sect. map_of config ''address'' = Some sect
            \<and> map_of sect ''full_address''
                = Some (street data @ '', '' @ suburb data @ '', '' @ province data
                        @ '' '' @ postal_code data)))
   \<and> (\<forall>ini_text. write_ini float_str data = Inr ini_text \<longrightarrow>
         sublist (write_option (''full_address'',
                    street data @ '', '' @ suburb data @ '', '' @ province data
                    @ '' '' @ postal_code data)) ini_text)
   \<and> (street data = ''22 Sloane Street'' \<and> suburb data = ''Bryanston''
        \<and> province data = ''GAUTENG'' \<and> postal_code data = ''1619'' \<longrightarrow>
         getpath (structured_data data) [''company'', ''address'', ''full_address'']
           = Some (JString ''22 Sloane Street, Bryanston, GAUTENG 1619'')
         \<and> (\<forall>ini_text. write_ini float_str data = Inr ini_text \<longrightarrow>
               sublist (''full_address = 22 Sloane Street, Bryanston, GAUTENG 1619''
                        @ [CHR 0x0A]) ini_text))"
proof -
  let ?fa = "street data @ '', '' @ suburb data @ '', '' @ province data
             @ '' '' @ postal_code data"
  have j: "getpath (structured_data data) [''company'', ''address'', ''full_address'']
             = Some (JString ?fa)"
    by (simp add: structured_data_def full_address_def)
  have c: "\<forall>config. ini_config float_str data = Inr config \<longrightarrow>
         (\<exists>sect. map_of config ''address'' = Some sect
            \<and> map_of sect ''full_address'' = Some ?fa)"
    by (simp add: ini_config_eq ini_sections_def address_section_def full_address_def)
  have t: "\<forall>ini_text. write_ini float_str data = Inr ini_text \<longrightarrow>
         sublist (write_option (''full_address'', ?fa)) ini_text"
  proof (intro allI impI)
    fix ini_text
    assume "write_ini float_str data = Inr ini_text"
    then have eq: "ini_text = config_write (ini_sections float_str data)"
      by (simp add: write_ini_eq split: if_splits)
    have "(''address'', address_section data) \<in> set (ini_sections float_str data)"
      by (simp add: ini_sections_def)
    moreover have "(''full_address'', ?fa) \<in> set (address_section data)"
      by (simp add: address_section_def full_address_def)
    ultimately show "sublist (write_option (''full_address'', ?fa)) ini_text"
      unfolding eq by (rule sublist_option_in_config)
  qed
  have e: "street data = ''22 Sloane Street'' \<and> suburb data = ''Bryanston''
        \<and> province data = ''GAUTENG'' \<and> postal_code data = ''1619'' \<longrightarrow>
         getpath (structured_data data) [''company'', ''address'', ''full_address'']
           = Some (JString ''22 Sloane Street, Bryanston, GAUTENG 1619'')
         \<and> (\<forall>ini_text. write_ini float_str data = Inr ini_text \<longrightarrow>
               sublist (''full_address = 22 Sloane Street, Bryanston, GAUTENG 1619''
                        @ [CHR 0x0A]) ini_text)"
  proof (intro impI)
    assume a: "street data = ''22 Sloane Street'' \<and> suburb data = ''Bryanston''
        \<and> province data = ''GAUTENG'' \<and> postal_code data = ''1619''"
    then have fa: "?fa = ''22 Sloane Street, Bryanston, GAUTENG 1619''" by simp
    have w: "write_option (''full_address'', ''22 Sloane Street, Bryanston, GAUTENG 1619'')
               = ''full_address = 22 Sloane Street, Bryanston, GAUTENG 1619'' @ [CHR 0x0A]"
      by (simp add: write_option_def)
    from j t show "getpath (structured_data data) [''company'', ''address'', ''full_address'']
           = Some (JString ''22 Sloane Street, Bryanston, GAUTENG 1619'')
         \<and> (\<forall>ini_text. write_ini float_str data = Inr ini_text \<longrightarrow>
               sublist (''full_address = 22 Sloane Street, Bryanston, GAUTENG 1619''
                        @ [CHR 0x0A]) ini_text)"
      unfolding fa w by blast
  qed
  have "json_load (write_json data) = Inr (structured_data data)"
    by (simp add: write_json_def)
  with j c t e show ?thesis by blast
qed

theorem full_address_computed_at_encode_witness:
  "street company_data = ''22 Sloane Street'' \<and> suburb company_data = ''Bryanston''
   \<and> province company_data = ''GAUTENG'' \<and> postal_code company_data = ''1619''
   \<and> getpath (structured_data company_data) [''company'', ''address'', ''full_address'']
       = Some (JString ''22 Sloane Street, Bryanston, GAUTENG 1619'')
   \<and> (\<exists>ini_text. write_ini (\<lambda>x. ''15.0'') company_data = Inr ini_text
         \<and> sublist (''full_address = 22 Sloane Street, Bryanston, GAUTENG 1619''
                    @ [CHR 0x0A]) ini_text)"
proof -
  have f: "street company_data = ''22 Sloane Street'' \<and> suburb company_data = ''Bryanston''
     \<and> province company_data = ''GAUTENG'' \<and> postal_code company_data = ''1619''"
    by (simp add: company_data_def)
  have "\<exists>ini_text. write_ini (\<lambda>x. ''15.0'') company_data = Inr ini_text"
    using company_data_values_ok by (simp add: write_ini_eq)
  with f full_address_computed_at_encode [of company_data "\<lambda>x. ''15.0''"]
  show ?thesis by blast
qed

section \<open>Properties of \<^verbatim>\<open>write_text\<close>\<close>

lemma join_nth_sublist:
  "0 < i \<Longrightarrow> Suc i < length xs \<Longrightarrow> sublist (sep @ xs ! i @ sep) (join sep xs)"
proof (induction sep xs arbitrary: i rule: join.induct)
  case (1 sep)
  then show ?case by simp
next
  case (2 sep x)
  then show ?case by simp
next
  case (3 sep x y ys)
  show ?case
  proof (cases "i = 1")
    case True
    with 3(3) obtain z zs where ys: "ys = z # zs" by (cases ys) auto
    have "join sep (x # y # ys) = x @ (sep @ y @ sep) @ join sep (z # zs)"
      by (simp add: ys)
    then show ?thesis using True by (metis nth_Cons_0 nth_Cons_Suc One_nat_def sublist_appendI)
  next
    case False
    with 3(2) obtain j where j: "i = Suc j" "0 < j" by (cases i) auto
    with 3(3) have "Suc j < length (y # ys)" by simp
    from 3(1) [OF j(2) this] have "sublist (sep @ (y # ys) ! j @ sep) (join sep (y # ys))" .
    then have "sublist (sep @ (y # ys) ! j @ sep) (x @ sep @ join sep (y # ys))"
      by (simp add: sublist_append)
    with j show ?thesis by simp
  qed
qed

lemma text_lines_length: "length (text_lines float_str data) = 37"
  by (simp add: text_lines_def)

lemma text_line_in_text:
  "0 < i \<Longrightarrow> i < 36 \<Longrightarrow>
   sublist ([CHR 0x0A] @ text_lines float_str data ! i @ [CHR 0x0A]) (write_text float_str data)"
  unfolding write_text_def by (rule join_nth_sublist) (simp_all add: text_lines_length)

text \<open>
  C8. For every record whose \<open>vat_number\<close> is empty, the text \<^verbatim>\<open>write_text\<close> writes has
  the line \<open>VAT Number: [To be filled]\<close>, and for every record whose \<open>tax_reference\<close> is
  empty it has the line \<open>Tax Reference: [To be filled]\<close>, so it contains the substring
  \<open>Tax Reference: [To be filled]\<close>.
\<close>

theorem write_text_placeholder:
  "(vat_number data = [] \<longrightarrow>
      sublist ([CHR 0x0A] @ ''    VAT Number: [To be filled]'' @ [CHR 0x0A])
        (write_text float_str data)
      \<and> sublist ''VAT Number: [To be filled]'' (write_text float_str data))
   \<and> (tax_reference data = [] \<longrightarrow>
      sublist ([CHR 0x0A] @ ''    Tax Reference: [To be filled]'' @ [CHR 0x0A])
        (write_text float_str data)
      \<and> sublist ''Tax Reference: [To be filled]'' (write_text float_str data))"
proof (intro conjI impI)
  assume a: "vat_number data = []"
  have "text_lines float_str data ! 29 = ''    VAT Number: [To be filled]''"
    by (simp add: text_lines_def str_or_def a)
  with text_line_in_text [of 29 float_str data]
  show l: "sublist ([CHR 0x0A] @ ''    VAT Number: [To be filled]'' @ [CHR 0x0A])
             (write_text float_str data)"
    by simp
  have "[CHR 0x0A] @ ''    VAT Number: [To be filled]'' @ [CHR 0x0A]
          = ([CHR 0x0A] @ ''    '') @ ''VAT Number: [To be filled]'' @ [CHR 0x0A]"
    by simp
  with l show "sublist ''VAT Number: [To be filled]'' (write_text float_str data)"
    by (metis sublist_inner)
next
  assume a: "tax_reference data = []"
  have "text_lines float_str data ! 30 = ''    Tax Reference: [To be filled]''"
    by (simp add: text_lines_def str_or_def a)
  with text_line_in_text [of 30 float_str data]
  show l: "sublist ([CHR 0x0A] @ ''    Tax Reference: [To be filled]'' @ [CHR 0x0A])
             (write_text float_str data)"
    by simp
  have "[CHR 0x0A] @ ''    Tax Reference: [To be filled]'' @ [CHR 0x0A]
          = ([CHR 0x0A] @ ''    '') @ ''Tax Reference: [To be filled]'' @ [CHR 0x0A]"
    by simp
  with l show "sublist ''Tax Reference: [To be filled]'' (write_text float_str data)"
    by (metis sublist_inner)
qed

theorem write_text_placeholder_witness:
  "vat_number company_data = [] \<and> tax_reference company_data = []
   \<and> sublist ''VAT Number: [To be filled]'' (write_text (\<lambda>x. ''15.0'') company_data)
   \<and> sublist ''Tax Reference: [To be filled]'' (write_text (\<lambda>x. ''15.0'') company_data)"
  using write_text_placeholder [of company_data "\<lambda>x. ''15.0''"]
  by (simp add: company_data_def)

end
